theory Spec2Isabelle
  imports Complex_Main
begin

section \<open>Residual factors of ceres-factors (include/ceres-factors/Factors.h)\<close>

text \<open>
  The header defines eight residual functors for a nonlinear least-squares solver. Every
  functor is a class with a constructor (which stores the measurement and the inverted
  covariance), a templated \<^verbatim>\<open>operator()\<close> (which reads one or two parameter blocks through
  \<^verbatim>\<open>const T*\<close> and writes the residual through \<^verbatim>\<open>T*\<close>) and, for the factory, a static
  \<^verbatim>\<open>Create\<close>. A class is a record of its data members (the member \<^verbatim>\<open>qij_inv_\<close> of
  \<^verbatim>\<open>RangeFactor\<close> is the field \<open>range_qij_inv\<close>, and so on: field names are global in
  a theory, so each carries the class as a prefix), its constructor is \<open>_new\<close>, its
  \<^verbatim>\<open>operator()\<close> is \<open>_call\<close> and its factory is \<open>_Create\<close>.

  Numbers. The arguments of the constructors, the coefficients of the parameter blocks
  and the values of the template parameter \<^verbatim>\<open>T\<close> computed from them are finite and are
  the type \<^typ>\<open>real\<close>: exact arithmetic, no rounding, no overflow, and only the value part
  of a jet. The constructors of the range and altitude factors divide by a variance that
  may be zero, so the inverse variance they store, and the residual that is its product
  with the error, are values of the type \<open>double\<close> below, which has the infinities and
  NaN. The one other division of the header is by the depth in the reprojection factor;
  it is the division of \<^typ>\<open>real\<close>, which is the code's at a nonzero depth.
\<close>

subsection \<open>Doubles with infinities and NaN\<close>

text \<open>
  A \<^verbatim>\<open>double\<close> is a real number, an infinity or NaN. The zero of \<^typ>\<open>real\<close> is the
  positive zero.
\<close>

datatype double = Finite real | PosInf | NegInf | NaN

text \<open>\<^verbatim>\<open>1.0 / q\<close> for a finite \<^verbatim>\<open>q\<close>: IEEE 754 gives \<open>+inf\<close> for \<open>1.0 / 0.0\<close>.\<close>

definition double_inverse :: "real \<Rightarrow> double" where
  "double_inverse q = (if q = 0 then PosInf else Finite (1 / q))"

text \<open>
  \<^verbatim>\<open>a * b\<close> in IEEE 754: NaN propagates, an infinity times zero is NaN, and an infinity
  times a nonzero value is the infinity of the product of the signs.
\<close>

definition double_times :: "double \<Rightarrow> double \<Rightarrow> double" where
  "double_times a b =
     (case a of
        NaN \<Rightarrow> NaN
      | Finite x \<Rightarrow>
          (case b of
             NaN \<Rightarrow> NaN
           | Finite y \<Rightarrow> Finite (x * y)
           | PosInf \<Rightarrow> (if x = 0 then NaN else if 0 < x then PosInf else NegInf)
           | NegInf \<Rightarrow> (if x = 0 then NaN else if 0 < x then NegInf else PosInf))
      | PosInf \<Rightarrow>
          (case b of
             NaN \<Rightarrow> NaN
           | Finite y \<Rightarrow> (if y = 0 then NaN else if 0 < y then PosInf else NegInf)
           | PosInf \<Rightarrow> PosInf
           | NegInf \<Rightarrow> NegInf)
      | NegInf \<Rightarrow>
          (case b of
             NaN \<Rightarrow> NaN
           | Finite y \<Rightarrow> (if y = 0 then NaN else if 0 < y then NegInf else PosInf)
           | PosInf \<Rightarrow> NegInf
           | NegInf \<Rightarrow> PosInf))"

subsection \<open>Fixed-size Eigen vectors and matrices\<close>

text \<open>
  \<^verbatim>\<open>Matrix<T, n, 1>\<close> is an \<open>n\<close>-tuple of coefficients, \<^verbatim>\<open>Matrix3d\<close> and
  \<^verbatim>\<open>Matrix<double, 6, 6>\<close> are tuples of rows.
\<close>

type_synonym vec2 = "real \<times> real"
type_synonym vec3 = "real \<times> real \<times> real"
type_synonym vec4 = "real \<times> real \<times> real \<times> real"
type_synonym vec6 = "real \<times> real \<times> real \<times> real \<times> real \<times> real"
type_synonym vec7 = "real \<times> real \<times> real \<times> real \<times> real \<times> real \<times> real"
type_synonym mat3 = "vec3 \<times> vec3 \<times> vec3"
type_synonym mat6 = "vec6 \<times> vec6 \<times> vec6 \<times> vec6 \<times> vec6 \<times> vec6"




text \<open>Coefficient-wise difference of two vectors (Eigen's binary \<^verbatim>\<open>operator-\<close>).\<close>

definition vec2_sub :: "vec2 \<Rightarrow> vec2 \<Rightarrow> vec2" where
  "vec2_sub = (\<lambda>(a1, a2) (b1, b2). (a1 - b1, a2 - b2))"

definition vec3_sub :: "vec3 \<Rightarrow> vec3 \<Rightarrow> vec3" where
  "vec3_sub = (\<lambda>(a1, a2, a3) (b1, b2, b3). (a1 - b1, a2 - b2, a3 - b3))"

text \<open>Scalar times vector (\<^verbatim>\<open>s * v\<close>).\<close>

definition vec3_scale :: "real \<Rightarrow> vec3 \<Rightarrow> vec3" where
  "vec3_scale s = (\<lambda>(a1, a2, a3). (s * a1, s * a2, s * a3))"


text \<open>\<^verbatim>\<open>v.norm()\<close>: the square root of the sum of the squared coefficients.\<close>

definition vec3_norm :: "vec3 \<Rightarrow> real" where
  "vec3_norm = (\<lambda>(a1, a2, a3). sqrt (a1 * a1 + a2 * a2 + a3 * a3))"

text \<open>Matrix times vector: one dot product per row.\<close>

definition dot3 :: "vec3 \<Rightarrow> vec3 \<Rightarrow> real" where
  "dot3 = (\<lambda>(a1, a2, a3) (b1, b2, b3). a1 * b1 + a2 * b2 + a3 * b3)"

definition dot6 :: "vec6 \<Rightarrow> vec6 \<Rightarrow> real" where
  "dot6 = (\<lambda>(a1, a2, a3, a4, a5, a6) (b1, b2, b3, b4, b5, b6).
     a1 * b1 + a2 * b2 + a3 * b3 + a4 * b4 + a5 * b5 + a6 * b6)"

definition mat3_vec :: "mat3 \<Rightarrow> vec3 \<Rightarrow> vec3" where
  "mat3_vec = (\<lambda>(r1, r2, r3) v. (dot3 r1 v, dot3 r2 v, dot3 r3 v))"

definition mat6_vec :: "mat6 \<Rightarrow> vec6 \<Rightarrow> vec6" where
  "mat6_vec = (\<lambda>(r1, r2, r3, r4, r5, r6) v.
     (dot6 r1 v, dot6 r2 v, dot6 r3 v, dot6 r4 v, dot6 r5 v, dot6 r6 v))"



subsection \<open>Parameter blocks\<close>

text \<open>
  A parameter block is the buffer of coefficients that the solver owns and passes as
  \<^verbatim>\<open>const T*\<close>; the model is the list of its coefficients. A read at an index beyond the
  buffer is undefined behaviour in C++ and \<open>None\<close> in the model, so an evaluation that
  returns \<open>Some\<close> has read inside every buffer it was given.
\<close>

type_synonym block = "real list"

text \<open>\<^verbatim>\<open>*(p + i)\<close>.\<close>

definition deref :: "block \<Rightarrow> nat \<Rightarrow> real option" where
  "deref p i = (if i < length p then Some (p ! i) else None)"

text \<open>\<^verbatim>\<open>Eigen::Matrix<T, 3, 1> v(p)\<close>: the three coefficients at \<^verbatim>\<open>p\<close>.\<close>

definition Map3 :: "block \<Rightarrow> vec3 option" where
  "Map3 p = (if 3 \<le> length p then Some (p ! 0, p ! 1, p ! 2) else None)"

text \<open>
  Modelled from the spec: \<^verbatim>\<open>SO3<T>\<close> and \<^verbatim>\<open>SE3<T>\<close> are declared in \<^verbatim>\<open>SO3.h\<close> and
  \<^verbatim>\<open>SE3.h\<close>, which are not part of this repository. Per the spec (2, 3 and 4.3) an
  orientation is constructed from a flat buffer of 4 coefficients and a pose from a flat
  buffer of 7 coefficients (translation, then orientation); the model of an element is
  the tuple of its coefficients, and \<^verbatim>\<open>SO3<T> q(p)\<close>, \<^verbatim>\<open>SE3<T> X(p)\<close> read them at \<^verbatim>\<open>p\<close>.
  \<^verbatim>\<open>SO3d q_(q_vec)\<close> and \<^verbatim>\<open>.cast<T>()\<close> keep the coefficients.
\<close>

definition Map4 :: "block \<Rightarrow> vec4 option" where
  "Map4 p = (if 4 \<le> length p then Some (p ! 0, p ! 1, p ! 2, p ! 3) else None)"

definition Map7 :: "block \<Rightarrow> vec7 option" where
  "Map7 p =
     (if 7 \<le> length p then Some (p ! 0, p ! 1, p ! 2, p ! 3, p ! 4, p ! 5, p ! 6) else None)"

subsection \<open>Operations the header calls and does not define\<close>

text \<open>
  The manifold operations of \<^verbatim>\<open>SO3.h\<close> and \<^verbatim>\<open>SE3.h\<close> and the matrix inverse of Eigen are
  parameters of the model: \<^verbatim>\<open>a * b\<close> (composition), \<^verbatim>\<open>q + v\<close> (an orientation moved by a
  tangent vector), \<^verbatim>\<open>a - b\<close> (the tangent-space difference), \<^verbatim>\<open>X.inverse()\<close>, \<^verbatim>\<open>X * p\<close> (a pose
  applied to a point) and \<^verbatim>\<open>Q.inverse()\<close> on \<^verbatim>\<open>Matrix3d\<close> and on \<^verbatim>\<open>Matrix<double, 6, 6>\<close>.
  Nothing is assumed of them; a theorem that needs one of their laws states it, at the
  elements it is used on, as a hypothesis.
\<close>

record externals =
  SO3_times :: "vec4 \<Rightarrow> vec4 \<Rightarrow> vec4"
  SO3_plus :: "vec4 \<Rightarrow> vec3 \<Rightarrow> vec4"
  SO3_minus :: "vec4 \<Rightarrow> vec4 \<Rightarrow> vec3"
  SE3_inverse :: "vec7 \<Rightarrow> vec7"
  SE3_times :: "vec7 \<Rightarrow> vec7 \<Rightarrow> vec7"
  SE3_minus :: "vec7 \<Rightarrow> vec7 \<Rightarrow> vec6"
  SE3_apply :: "vec7 \<Rightarrow> vec3 \<Rightarrow> vec3"
  Matrix3d_inverse :: "mat3 \<Rightarrow> mat3"
  Matrix6d_inverse :: "mat6 \<Rightarrow> mat6"

subsection \<open>The cost object returned by a factory\<close>

text \<open>
  Modelled from the spec: \<^verbatim>\<open>ceres::AutoDiffCostFunction<Functor, kNumResiduals, Ns...>\<close> is
  declared in Ceres, not in this repository. Per the spec (4.3) the cost object is the
  functor annotated with the residual dimension and the coefficient-buffer size of each
  parameter block; the template arguments of each \<^verbatim>\<open>Create\<close> are these numbers.
\<close>

record 'f CostFunction =
  cost_functor :: 'f
  num_residuals :: nat
  parameter_block_sizes :: "nat list"

subsection \<open>SO3Factor\<close>

record SO3Factor =
  so3_q :: vec4
  so3_Q_inv :: mat3

text \<open>
  The constructor: \<^verbatim>\<open>q_(q_vec), Q_inv_(Q.inverse())\<close>. A constructor that rejected its
  arguments (by an exception or an abort) would return \<open>None\<close>; the source has no check,
  throw or assertion in any of the eight constructors, so every path returns \<open>Some\<close>.
\<close>

definition SO3Factor_new :: "externals \<Rightarrow> vec4 \<Rightarrow> mat3 \<Rightarrow> SO3Factor option" where
  "SO3Factor_new E q_vec Q = Some \<lparr>so3_q = q_vec, so3_Q_inv = Matrix3d_inverse E Q\<rparr>"

text \<open>
  \<^verbatim>\<open>operator()\<close>: the pair of the returned flag and the residual written to \<^verbatim>\<open>_res\<close>;
  \<^verbatim>\<open>r = Q_inv_ * (q_hat - q_.cast<T>())\<close>.
\<close>

definition SO3Factor_call :: "externals \<Rightarrow> SO3Factor \<Rightarrow> block \<Rightarrow> (bool \<times> vec3) option" where
  "SO3Factor_call E f q_hat_buf =
     (case Map4 q_hat_buf of None \<Rightarrow> None | Some q_hat \<Rightarrow>
        Some (True, mat3_vec (so3_Q_inv f) (SO3_minus E q_hat (so3_q f))))"

definition SO3Factor_Create ::
  "externals \<Rightarrow> vec4 \<Rightarrow> mat3 \<Rightarrow> SO3Factor CostFunction option" where
  "SO3Factor_Create E q_vec Q =
     map_option (\<lambda>f. \<lparr>cost_functor = f, num_residuals = 3, parameter_block_sizes = [4]\<rparr>)
       (SO3Factor_new E q_vec Q)"

subsection \<open>RelSE3Factor\<close>

record RelSE3Factor =
  rel_Xij :: vec7
  rel_Q_inv :: mat6

definition RelSE3Factor_new :: "externals \<Rightarrow> vec7 \<Rightarrow> mat6 \<Rightarrow> RelSE3Factor option" where
  "RelSE3Factor_new E X_vec Q = Some \<lparr>rel_Xij = X_vec, rel_Q_inv = Matrix6d_inverse E Q\<rparr>"

text \<open>\<^verbatim>\<open>r = Q_inv_ * (Xi_hat.inverse() * Xj_hat - Xij_.cast<T>())\<close>.\<close>

definition RelSE3Factor_call ::
  "externals \<Rightarrow> RelSE3Factor \<Rightarrow> block \<Rightarrow> block \<Rightarrow> (bool \<times> vec6) option" where
  "RelSE3Factor_call E f Xi_hat_buf Xj_hat_buf =
     (case Map7 Xi_hat_buf of None \<Rightarrow> None | Some Xi_hat \<Rightarrow>
      case Map7 Xj_hat_buf of None \<Rightarrow> None | Some Xj_hat \<Rightarrow>
        Some (True, mat6_vec (rel_Q_inv f)
          (SE3_minus E (SE3_times E (SE3_inverse E Xi_hat) Xj_hat) (rel_Xij f))))"

definition RelSE3Factor_Create ::
  "externals \<Rightarrow> vec7 \<Rightarrow> mat6 \<Rightarrow> RelSE3Factor CostFunction option" where
  "RelSE3Factor_Create E Xij Q =
     map_option (\<lambda>f. \<lparr>cost_functor = f, num_residuals = 6, parameter_block_sizes = [7, 7]\<rparr>)
       (RelSE3Factor_new E Xij Q)"

subsection \<open>RangeFactor\<close>

record RangeFactor =
  range_rij :: real
  range_qij_inv :: double

text \<open>The constructor: \<^verbatim>\<open>rij_ = rij; qij_inv_ = 1.0 / qij;\<close>.\<close>

definition RangeFactor_new :: "real \<Rightarrow> real \<Rightarrow> RangeFactor option" where
  "RangeFactor_new rij qij = Some \<lparr>range_rij = rij, range_qij_inv = double_inverse qij\<rparr>"

text \<open>
  \<^verbatim>\<open>*_res = static_cast<T>(qij_inv_) * (static_cast<T>(rij_) - (tj_hat - ti_hat).norm())\<close>.
\<close>

definition RangeFactor_call ::
  "RangeFactor \<Rightarrow> block \<Rightarrow> block \<Rightarrow> (bool \<times> double) option" where
  "RangeFactor_call f Xi_hat Xj_hat =
     (case Map3 Xi_hat of None \<Rightarrow> None | Some ti_hat \<Rightarrow>
      case Map3 Xj_hat of None \<Rightarrow> None | Some tj_hat \<Rightarrow>
        Some (True, double_times (range_qij_inv f)
          (Finite (range_rij f - vec3_norm (vec3_sub tj_hat ti_hat)))))"

definition RangeFactor_Create :: "real \<Rightarrow> real \<Rightarrow> RangeFactor CostFunction option" where
  "RangeFactor_Create rij qij =
     map_option (\<lambda>f. \<lparr>cost_functor = f, num_residuals = 1, parameter_block_sizes = [7, 7]\<rparr>)
       (RangeFactor_new rij qij)"

subsection \<open>AltFactor\<close>

record AltFactor =
  alt_hi :: real
  alt_qi_inv :: double

text \<open>The constructor: \<^verbatim>\<open>hi_ = hi; qi_inv_ = 1.0 / qi;\<close>.\<close>

definition AltFactor_new :: "real \<Rightarrow> real \<Rightarrow> AltFactor option" where
  "AltFactor_new hi qi = Some \<lparr>alt_hi = hi, alt_qi_inv = double_inverse qi\<rparr>"

text \<open>
  \<^verbatim>\<open>T hi_hat = *(_Xi_hat + 2); *_res = static_cast<T>(qi_inv_) * (static_cast<T>(hi_) - hi_hat)\<close>.
\<close>

definition AltFactor_call :: "AltFactor \<Rightarrow> block \<Rightarrow> (bool \<times> double) option" where
  "AltFactor_call f Xi_hat =
     (case deref Xi_hat 2 of None \<Rightarrow> None | Some hi_hat \<Rightarrow>
        Some (True, double_times (alt_qi_inv f) (Finite (alt_hi f - hi_hat))))"

definition AltFactor_Create :: "real \<Rightarrow> real \<Rightarrow> AltFactor CostFunction option" where
  "AltFactor_Create hi qi =
     map_option (\<lambda>f. \<lparr>cost_functor = f, num_residuals = 1, parameter_block_sizes = [7]\<rparr>)
       (AltFactor_new hi qi)"

subsection \<open>TimeSyncAttFactor\<close>

record TimeSyncAttFactor =
  tsync_q_ref :: vec4
  tsync_q :: vec4
  tsync_w :: vec3
  tsync_Q_inv :: mat3

definition TimeSyncAttFactor_new ::
  "externals \<Rightarrow> vec4 \<Rightarrow> vec4 \<Rightarrow> vec3 \<Rightarrow> mat3 \<Rightarrow> TimeSyncAttFactor option" where
  "TimeSyncAttFactor_new E q_ref_vec q_vec w_vec Q =
     Some \<lparr>tsync_q_ref = q_ref_vec, tsync_q = q_vec, tsync_w = w_vec,
           tsync_Q_inv = Matrix3d_inverse E Q\<rparr>"

text \<open>\<^verbatim>\<open>r = Q_inv_ * (q_ref_.cast<T>() - (q_.cast<T>() + *_dt_hat * w_.cast<T>()))\<close>.\<close>

definition TimeSyncAttFactor_call ::
  "externals \<Rightarrow> TimeSyncAttFactor \<Rightarrow> block \<Rightarrow> (bool \<times> vec3) option" where
  "TimeSyncAttFactor_call E f dt_hat_buf =
     (case deref dt_hat_buf 0 of None \<Rightarrow> None | Some dt_hat \<Rightarrow>
        Some (True, mat3_vec (tsync_Q_inv f)
          (SO3_minus E (tsync_q_ref f)
             (SO3_plus E (tsync_q f) (vec3_scale dt_hat (tsync_w f))))))"

definition TimeSyncAttFactor_Create ::
  "externals \<Rightarrow> vec4 \<Rightarrow> vec4 \<Rightarrow> vec3 \<Rightarrow> mat3 \<Rightarrow> TimeSyncAttFactor CostFunction option" where
  "TimeSyncAttFactor_Create E q_ref_vec q_vec w_vec Q =
     map_option (\<lambda>f. \<lparr>cost_functor = f, num_residuals = 3, parameter_block_sizes = [1]\<rparr>)
       (TimeSyncAttFactor_new E q_ref_vec q_vec w_vec Q)"

subsection \<open>SO3OffsetFactor\<close>

record SO3OffsetFactor =
  so3off_q_ref :: vec4
  so3off_q :: vec4
  so3off_Q_inv :: mat3

definition SO3OffsetFactor_new ::
  "externals \<Rightarrow> vec4 \<Rightarrow> vec4 \<Rightarrow> mat3 \<Rightarrow> SO3OffsetFactor option" where
  "SO3OffsetFactor_new E q_ref_vec q_vec Q =
     Some \<lparr>so3off_q_ref = q_ref_vec, so3off_q = q_vec, so3off_Q_inv = Matrix3d_inverse E Q\<rparr>"

text \<open>\<^verbatim>\<open>r = Q_inv_ * (q_ref_.cast<T>() - (q_.cast<T>() * q_off))\<close>.\<close>

definition SO3OffsetFactor_call ::
  "externals \<Rightarrow> SO3OffsetFactor \<Rightarrow> block \<Rightarrow> (bool \<times> vec3) option" where
  "SO3OffsetFactor_call E f q_off_buf =
     (case Map4 q_off_buf of None \<Rightarrow> None | Some q_off \<Rightarrow>
        Some (True, mat3_vec (so3off_Q_inv f)
          (SO3_minus E (so3off_q_ref f) (SO3_times E (so3off_q f) q_off))))"

definition SO3OffsetFactor_Create ::
  "externals \<Rightarrow> vec4 \<Rightarrow> vec4 \<Rightarrow> mat3 \<Rightarrow> SO3OffsetFactor CostFunction option" where
  "SO3OffsetFactor_Create E q_ref_vec q_vec Q =
     map_option (\<lambda>f. \<lparr>cost_functor = f, num_residuals = 3, parameter_block_sizes = [4]\<rparr>)
       (SO3OffsetFactor_new E q_ref_vec q_vec Q)"

subsection \<open>SE3OffsetFactor\<close>

record SE3OffsetFactor =
  se3off_T_ref :: vec7
  se3off_T :: vec7
  se3off_Q_inv :: mat6

definition SE3OffsetFactor_new ::
  "externals \<Rightarrow> vec7 \<Rightarrow> vec7 \<Rightarrow> mat6 \<Rightarrow> SE3OffsetFactor option" where
  "SE3OffsetFactor_new E T_ref_vec T_vec Q =
     Some \<lparr>se3off_T_ref = T_ref_vec, se3off_T = T_vec, se3off_Q_inv = Matrix6d_inverse E Q\<rparr>"

text \<open>\<^verbatim>\<open>r = Q_inv_ * (T_ref_.cast<T>() - (T_.cast<T>() * T_off))\<close>.\<close>

definition SE3OffsetFactor_call ::
  "externals \<Rightarrow> SE3OffsetFactor \<Rightarrow> block \<Rightarrow> (bool \<times> vec6) option" where
  "SE3OffsetFactor_call E f T_off_buf =
     (case Map7 T_off_buf of None \<Rightarrow> None | Some T_off \<Rightarrow>
        Some (True, mat6_vec (se3off_Q_inv f)
          (SE3_minus E (se3off_T_ref f) (SE3_times E (se3off_T f) T_off))))"

definition SE3OffsetFactor_Create ::
  "externals \<Rightarrow> vec7 \<Rightarrow> vec7 \<Rightarrow> mat6 \<Rightarrow> SE3OffsetFactor CostFunction option" where
  "SE3OffsetFactor_Create E T_ref_vec T_vec Q =
     map_option (\<lambda>f. \<lparr>cost_functor = f, num_residuals = 6, parameter_block_sizes = [7]\<rparr>)
       (SE3OffsetFactor_new E T_ref_vec T_vec Q)"

subsection \<open>SE3ReprojectionFactor\<close>

record SE3ReprojectionFactor =
  reproj_img_coords :: vec2
  reproj_world_coords :: vec3
  reproj_fx :: real
  reproj_fy :: real
  reproj_cx :: real
  reproj_cy :: real

definition SE3ReprojectionFactor_new ::
  "real \<Rightarrow> real \<Rightarrow> real \<Rightarrow> real \<Rightarrow> vec2 \<Rightarrow> vec3 \<Rightarrow> SE3ReprojectionFactor option" where
  "SE3ReprojectionFactor_new fx fy cx cy img_coords world_coords =
     Some \<lparr>reproj_img_coords = img_coords, reproj_world_coords = world_coords,
           reproj_fx = fx, reproj_fy = fy, reproj_cx = cx, reproj_cy = cy\<rparr>"

text \<open>
  \<^verbatim>\<open>camera_coords = H.inverse() * _world_coords.cast<T>()\<close>, then
  \<^verbatim>\<open>proj << fx * camera_coords.x() / camera_coords.z() + cx,
          fy * camera_coords.y() / camera_coords.z() + cy\<close> and
  \<^verbatim>\<open>r = _img_coords.cast<T>() - proj\<close>. No information matrix is stored or applied.
\<close>

definition pinhole :: "SE3ReprojectionFactor \<Rightarrow> vec3 \<Rightarrow> vec2" where
  "pinhole f = (\<lambda>(x, y, z).
     (reproj_fx f * x / z + reproj_cx f, reproj_fy f * y / z + reproj_cy f))"

definition SE3ReprojectionFactor_call ::
  "externals \<Rightarrow> SE3ReprojectionFactor \<Rightarrow> block \<Rightarrow> (bool \<times> vec2) option" where
  "SE3ReprojectionFactor_call E f H_buf =
     (case Map7 H_buf of None \<Rightarrow> None | Some H \<Rightarrow>
        let camera_coords = SE3_apply E (SE3_inverse E H) (reproj_world_coords f);
            proj = pinhole f camera_coords
        in Some (True, vec2_sub (reproj_img_coords f) proj))"

definition SE3ReprojectionFactor_Create ::
  "real \<Rightarrow> real \<Rightarrow> real \<Rightarrow> real \<Rightarrow> vec2 \<Rightarrow> vec3 \<Rightarrow> SE3ReprojectionFactor CostFunction option"
  where
  "SE3ReprojectionFactor_Create fx fy cx cy img_coords world_coords =
     map_option (\<lambda>f. \<lparr>cost_functor = f, num_residuals = 2, parameter_block_sizes = [7]\<rparr>)
       (SE3ReprojectionFactor_new fx fy cx cy img_coords world_coords)"

subsection \<open>An instance of the external operations\<close>

text \<open>
  The theorems below hold for every value of \<^typ>\<open>externals\<close>; their worked examples
  evaluate them at this one. Orientations are quaternions \<open>(w, x, y, z)\<close> under the
  Hamilton product, with first-order tangent maps (they agree with the exponential and
  the logarithm at the identity rotation only); a pose acts as the translation by its
  first three coefficients; a matrix is inverted as if it were diagonal. It is an
  instance to compute with, not a model of \<^verbatim>\<open>SO3.h\<close>, \<^verbatim>\<open>SE3.h\<close> or Eigen.
\<close>

definition diag3 :: "real \<Rightarrow> real \<Rightarrow> real \<Rightarrow> mat3" where
  "diag3 a b c = ((a, 0, 0), (0, b, 0), (0, 0, c))"

definition diag6 :: "real \<Rightarrow> real \<Rightarrow> real \<Rightarrow> real \<Rightarrow> real \<Rightarrow> real \<Rightarrow> mat6" where
  "diag6 a b c d e f =
     ((a, 0, 0, 0, 0, 0), (0, b, 0, 0, 0, 0), (0, 0, c, 0, 0, 0),
      (0, 0, 0, d, 0, 0), (0, 0, 0, 0, e, 0), (0, 0, 0, 0, 0, f))"

definition quat_times :: "vec4 \<Rightarrow> vec4 \<Rightarrow> vec4" where
  "quat_times = (\<lambda>(w1, x1, y1, z1) (w2, x2, y2, z2).
     (w1 * w2 - x1 * x2 - y1 * y2 - z1 * z2,
      w1 * x2 + x1 * w2 + y1 * z2 - z1 * y2,
      w1 * y2 - x1 * z2 + y1 * w2 + z1 * x2,
      w1 * z2 + x1 * y2 - y1 * x2 + z1 * w2))"

definition example_externals :: externals where
  "example_externals =
     \<lparr>SO3_times = quat_times,
      SO3_plus = (\<lambda>q (v1, v2, v3). quat_times q (1, v1 / 2, v2 / 2, v3 / 2)),
      SO3_minus = (\<lambda>a (w, x, y, z).
         case quat_times (w, - x, - y, - z) a of (dw, dx, dy, dz) \<Rightarrow> (2 * dx, 2 * dy, 2 * dz)),
      SE3_inverse = (\<lambda>(x, y, z, q). (- x, - y, - z, 1, 0, 0, 0)),
      SE3_times = (\<lambda>(x1, y1, z1, q1) (x2, y2, z2, q2). (x1 + x2, y1 + y2, z1 + z2, 1, 0, 0, 0)),
      SE3_minus = (\<lambda>(x1, y1, z1, q1) (x2, y2, z2, q2). (x1 - x2, y1 - y2, z1 - z2, 0, 0, 0)),
      SE3_apply = (\<lambda>(x, y, z, q) (p1, p2, p3). (p1 + x, p2 + y, p3 + z)),
      Matrix3d_inverse = (\<lambda>((a, _), (_, b, _), (_, _, c)). diag3 (1 / a) (1 / b) (1 / c)),
      Matrix6d_inverse = (\<lambda>((a, _), (_, b, _), (_, _, c, _), (_, _, _, d, _), (_, _, _, _, e, _),
           (_, _, _, _, _, f)). diag6 (1 / a) (1 / b) (1 / c) (1 / d) (1 / e) (1 / f))\<rparr>"

section \<open>Properties\<close>

subsection \<open>Vector and matrix facts\<close>










lemma sqrt_25: "sqrt 25 = 5"
  by (rule real_sqrt_unique) simp_all

text \<open>The definitions that evaluate a worked example.\<close>

lemmas ex_defs = example_externals_def quat_times_def diag3_def diag6_def
  Map3_def Map4_def Map7_def deref_def vec2_sub_def vec3_sub_def vec3_scale_def
  vec3_norm_def dot3_def dot6_def mat3_vec_def mat6_vec_def pinhole_def
  double_inverse_def double_times_def

subsection \<open>RangeFactor is symmetric\<close>

lemma vec3_norm_sub_commute: "vec3_norm (vec3_sub a b) = vec3_norm (vec3_sub b a)"
proof (cases a, cases b)
  fix a1 a2 a3 b1 b2 b3 :: real
  assume a: "a = (a1, a2, a3)" and b: "b = (b1, b2, b3)"
  have sq: "(x - y) * (x - y) = (y - x) * (y - x)" for x y :: real
    by (simp add: algebra_simps)
  show ?thesis
    unfolding a b vec3_sub_def vec3_norm_def
    by (simp add: sq [of a1 b1] sq [of a2 b2] sq [of a3 b3])
qed

text \<open>
  C9. The range residual is symmetric in its two parameter blocks: evaluating with
  \<open>(Xi, Xj)\<close> and with \<open>(Xj, Xi)\<close> gives the same result, for every factor and every pair
  of buffers (of any length: if one of them is too short, both orders read outside it).
\<close>

theorem RangeFactor_call_symmetric:
  "RangeFactor_call f Xi Xj = RangeFactor_call f Xj Xi"
  by (cases "Map3 Xi"; cases "Map3 Xj")
     (simp_all add: RangeFactor_call_def vec3_norm_sub_commute)

subsection \<open>AltFactor reads one coefficient\<close>

text \<open>
  C10. The altitude residual depends only on coefficient 2 of its pose block: two buffers
  that hold a coefficient 2 and agree on it give the same result, whatever their other
  coefficients (the orientation part included) are.
\<close>

theorem AltFactor_call_index_2_only:
  "2 < length Xi \<Longrightarrow> 2 < length Xi' \<Longrightarrow> Xi ! 2 = Xi' ! 2 \<Longrightarrow>
     AltFactor_call f Xi = AltFactor_call f Xi'"
  by (simp add: AltFactor_call_def deref_def)

theorem AltFactor_call_index_2_only_witness:
  "AltFactor_call \<lparr>alt_hi = 10, alt_qi_inv = Finite 1\<rparr> [1, 2, 10, 1, 0, 0, 0] =
   AltFactor_call \<lparr>alt_hi = 10, alt_qi_inv = Finite 1\<rparr> [5, 6, 10, 0, 1, 0, 0]"
  by (rule AltFactor_call_index_2_only) simp_all

subsection \<open>RangeFactor at coinciding translations and at the 3-4-5 triangle\<close>

lemma Map3_eq_of_take:
  assumes "3 \<le> length p" "3 \<le> length p'" "take 3 p = take 3 p'"
  shows "Map3 p = Map3 p'"
proof -
  have "p ! i = p' ! i" if "i < 3" for i
    using that assms(3) by (metis nth_take)
  then show ?thesis using assms(1,2) by (simp add: Map3_def)
qed

lemma vec3_norm_sub_self: "vec3_norm (vec3_sub t t) = 0"
  by (cases t) (simp add: vec3_norm_def vec3_sub_def)

text \<open>
  C6. When the translations of the two pose blocks coincide, the evaluation completes
  with the flag \<open>True\<close>, the norm of the zero difference is zero, and the residual is the
  stored inverse variance times the measured range (the product of doubles, whatever the
  stored inverse variance is); nothing regularises the zero separation.
\<close>

theorem RangeFactor_call_coincident:
  "3 \<le> length Xi \<Longrightarrow> 3 \<le> length Xj \<Longrightarrow> take 3 Xi = take 3 Xj \<Longrightarrow>
     RangeFactor_call f Xi Xj
       = Some (True, double_times (range_qij_inv f) (Finite (range_rij f)))"
proof -
  assume a: "3 \<le> length Xi" "3 \<le> length Xj" "take 3 Xi = take 3 Xj"
  have m: "Map3 Xi = Map3 Xj" using a by (rule Map3_eq_of_take)
  obtain t where t: "Map3 Xj = Some t" using a(2) by (simp add: Map3_def)
  show ?thesis by (simp add: RangeFactor_call_def m t vec3_norm_sub_self)
qed

theorem RangeFactor_call_coincident_witness:
  "RangeFactor_call \<lparr>range_rij = 5, range_qij_inv = Finite (1 / 2)\<rparr>
     [1, 2, 3, 1, 0, 0, 0] [1, 2, 3, 0, 0, 1, 0] = Some (True, Finite (1 / 2 * 5))"
  using RangeFactor_call_coincident [of "[1, 2, 3, 1, 0, 0, 0]" "[1, 2, 3, 0, 0, 1, 0]"
      "\<lparr>range_rij = 5, range_qij_inv = Finite (1 / 2)\<rparr>"]
  by (simp add: double_times_def)

lemma Map3_of_take:
  assumes "take 3 p = [a, b, c]"
  shows "Map3 p = Some (a, b, c)"
proof -
  have len: "3 \<le> length p"
    using arg_cong [OF assms, of length] by simp
  then have "Map3 p = Map3 (take 3 p)" by (simp add: Map3_def)
  then show ?thesis by (simp add: assms Map3_def)
qed

lemma RangeFactor_call_formula:
  assumes "Map3 Xi = Some (a1, a2, a3)" and "Map3 Xj = Some (b1, b2, b3)"
  shows "RangeFactor_call f Xi Xj =
    Some (True, double_times (range_qij_inv f) (Finite
      (range_rij f - sqrt ((b1 - a1) * (b1 - a1) + (b2 - a2) * (b2 - a2) + (b3 - a3) * (b3 - a3)))))"
  by (simp add: RangeFactor_call_def assms vec3_norm_def vec3_sub_def)

text \<open>
  C5. With translation \<open>(0, 0, 0)\<close> in pose \<open>i\<close> and \<open>(3, 4, 0)\<close> in pose \<open>j\<close>: the factor
  built from range 5 and variance 1 has residual 0, and the factor built from range 6 and
  variance \<open>q\<close> has residual \<open>(6 - 5) * (1 / q)\<close>. In general the factor built from range
  \<open>r\<close> and variance \<open>q\<close> has residual \<open>1 / q\<close> times (\<open>r\<close> minus the Euclidean distance of
  the two translations). Both hold for every \<open>q\<close> with the code's \<^verbatim>\<open>1.0 / q\<close> and its
  product of doubles, and for \<open>q \<noteq> 0\<close> these are the quotient and product of reals.
\<close>

theorem RangeFactor_3_4_5:
  "take 3 Xi = [0, 0, 0] \<Longrightarrow> take 3 Xj = [3, 4, 0] \<Longrightarrow>
   take 3 Yi = [a1, a2, a3] \<Longrightarrow> take 3 Yj = [b1, b2, b3] \<Longrightarrow>
     Option.bind (RangeFactor_new 5 1) (\<lambda>f. RangeFactor_call f Xi Xj)
       = Some (True, Finite 0) \<and>
     Option.bind (RangeFactor_new 6 q) (\<lambda>f. RangeFactor_call f Xi Xj)
       = Some (True, double_times (double_inverse q) (Finite (6 - 5))) \<and>
     Option.bind (RangeFactor_new r q) (\<lambda>f. RangeFactor_call f Yi Yj)
       = Some (True, double_times (double_inverse q)
           (Finite (r - sqrt ((b1 - a1)\<^sup>2 + (b2 - a2)\<^sup>2 + (b3 - a3)\<^sup>2)))) \<and>
     (q \<noteq> 0 \<longrightarrow>
        Option.bind (RangeFactor_new 6 q) (\<lambda>f. RangeFactor_call f Xi Xj)
          = Some (True, Finite ((6 - 5) * (1 / q))) \<and>
        Option.bind (RangeFactor_new r q) (\<lambda>f. RangeFactor_call f Yi Yj)
          = Some (True, Finite (1 / q * (r - sqrt ((b1 - a1)\<^sup>2 + (b2 - a2)\<^sup>2 + (b3 - a3)\<^sup>2)))))"
proof -
  assume i: "take 3 Xi = [0, 0, 0]" and j: "take 3 Xj = [3, 4, 0]"
    and i': "take 3 Yi = [a1, a2, a3]" and j': "take 3 Yj = [b1, b2, b3]"
  note f = RangeFactor_call_formula [OF Map3_of_take [OF i] Map3_of_take [OF j]]
  note g = RangeFactor_call_formula [OF Map3_of_take [OF i'] Map3_of_take [OF j']]
  show ?thesis
    by (simp add: RangeFactor_new_def f g sqrt_25 power2_eq_square
        double_inverse_def double_times_def)
qed

theorem RangeFactor_3_4_5_witness:
  "Option.bind (RangeFactor_new 5 1)
     (\<lambda>f. RangeFactor_call f [0, 0, 0, 1, 0, 0, 0] [3, 4, 0, 1, 0, 0, 0])
     = Some (True, Finite 0) \<and>
   Option.bind (RangeFactor_new 6 2)
     (\<lambda>f. RangeFactor_call f [0, 0, 0, 1, 0, 0, 0] [3, 4, 0, 1, 0, 0, 0])
     = Some (True, Finite (1 / 2)) \<and>
   Option.bind (RangeFactor_new 7 2)
     (\<lambda>f. RangeFactor_call f [1, 1, 1, 1, 0, 0, 0] [4, 5, 1, 1, 0, 0, 0])
     = Some (True, Finite 1)"
  using RangeFactor_3_4_5 [of "[0, 0, 0, 1, 0, 0, 0]" "[3, 4, 0, 1, 0, 0, 0]"
      "[1, 1, 1, 1, 0, 0, 0]" 1 1 1 "[4, 5, 1, 1, 0, 0, 0]" 4 5 1 2 7]
  by (simp add: sqrt_25 double_inverse_def double_times_def)

subsection \<open>The returned flag\<close>

text \<open>
  C8. Every \<^verbatim>\<open>operator()\<close> returns \<open>True\<close>: whenever the blocks hold the coefficients
  that the functor reads, the flag is \<open>True\<close>, whatever the coefficients and the stored
  data are; no input makes an evaluation return \<open>False\<close>. (On a shorter block the C++
  reads outside the buffer, and the model has no result.)
\<close>

theorem call_returns_true:
  "map_option fst (SO3Factor_call E f1 q_hat)
     = (if 4 \<le> length q_hat then Some True else None) \<and>
   map_option fst (RelSE3Factor_call E f2 Xi Xj)
     = (if 7 \<le> length Xi \<and> 7 \<le> length Xj then Some True else None) \<and>
   map_option fst (RangeFactor_call f3 Yi Yj)
     = (if 3 \<le> length Yi \<and> 3 \<le> length Yj then Some True else None) \<and>
   map_option fst (AltFactor_call f4 Zi)
     = (if 2 < length Zi then Some True else None) \<and>
   map_option fst (TimeSyncAttFactor_call E f5 dt_hat)
     = (if 0 < length dt_hat then Some True else None) \<and>
   map_option fst (SO3OffsetFactor_call E f6 q_off)
     = (if 4 \<le> length q_off then Some True else None) \<and>
   map_option fst (SE3OffsetFactor_call E f7 T_off)
     = (if 7 \<le> length T_off then Some True else None) \<and>
   map_option fst (SE3ReprojectionFactor_call E f8 H)
     = (if 7 \<le> length H then Some True else None)"
  by (simp add: SO3Factor_call_def RelSE3Factor_call_def RangeFactor_call_def
      AltFactor_call_def TimeSyncAttFactor_call_def SO3OffsetFactor_call_def
      SE3OffsetFactor_call_def SE3ReprojectionFactor_call_def
      Map3_def Map4_def Map7_def deref_def Let_def)

subsection \<open>Construction with a singular covariance\<close>

text \<open>
  C2 (as stated: a singular covariance is detected and construction fails). It does not
  hold: the range factor is constructed from the variance 0, and the infinity that
  \<^verbatim>\<open>1.0 / 0\<close> gives is stored as its inverse variance.
\<close>

theorem RangeFactor_new_singular_variance:
  "RangeFactor_new 5 0 = Some \<lparr>range_rij = 5, range_qij_inv = PosInf\<rparr>"
  by (simp add: RangeFactor_new_def double_inverse_def)

text \<open>
  C2 (amended). No constructor checks its covariance: for every covariance matrix or
  variance, singular or not, the construction succeeds and stores what \<^verbatim>\<open>Q.inverse()\<close>
  returns, and for the range and altitude factors what \<^verbatim>\<open>1.0 / q\<close> gives: the infinity
  for the variance 0, the quotient otherwise.
\<close>

theorem constructors_store_inverse_unchecked:
  "SO3Factor_new E q_vec Q3 = Some \<lparr>so3_q = q_vec, so3_Q_inv = Matrix3d_inverse E Q3\<rparr> \<and>
   RelSE3Factor_new E X_vec Q6 = Some \<lparr>rel_Xij = X_vec, rel_Q_inv = Matrix6d_inverse E Q6\<rparr> \<and>
   RangeFactor_new rij qij
     = Some \<lparr>range_rij = rij,
            range_qij_inv = (if qij = 0 then PosInf else Finite (1 / qij))\<rparr> \<and>
   AltFactor_new hi qi
     = Some \<lparr>alt_hi = hi, alt_qi_inv = (if qi = 0 then PosInf else Finite (1 / qi))\<rparr> \<and>
   TimeSyncAttFactor_new E q_ref_vec q_vec w_vec Q3
     = Some \<lparr>tsync_q_ref = q_ref_vec, tsync_q = q_vec, tsync_w = w_vec,
            tsync_Q_inv = Matrix3d_inverse E Q3\<rparr> \<and>
   SO3OffsetFactor_new E q_ref_vec q_vec Q3
     = Some \<lparr>so3off_q_ref = q_ref_vec, so3off_q = q_vec,
            so3off_Q_inv = Matrix3d_inverse E Q3\<rparr> \<and>
   SE3OffsetFactor_new E T_ref_vec T_vec Q6
     = Some \<lparr>se3off_T_ref = T_ref_vec, se3off_T = T_vec,
            se3off_Q_inv = Matrix6d_inverse E Q6\<rparr>"
  by (simp add: SO3Factor_new_def RelSE3Factor_new_def RangeFactor_new_def AltFactor_new_def
      TimeSyncAttFactor_new_def SO3OffsetFactor_new_def SE3OffsetFactor_new_def
      double_inverse_def)

subsection \<open>A matching estimate gives a zero residual\<close>




subsection \<open>The declared sizes\<close>

text \<open>
  C3. Each \<^verbatim>\<open>Create\<close> declares the residual dimension and the block sizes of the catalog:
  orientation 3 and [4], relative pose 6 and [7, 7], range 1 and [7, 7], altitude 1 and
  [7], time-sync attitude 3 and [1], orientation offset 3 and [4], pose offset 6 and [7],
  reprojection 2 and [7]. And no call reads a coefficient beyond the declared size of a
  block: on blocks cut to their declared sizes the call has a result (every read was inside
  the block), and it is the result on the whole buffers.
\<close>

theorem Create_declares_what_call_reads:
  "map_option (\<lambda>c. (num_residuals c, parameter_block_sizes c)) (SO3Factor_Create E q_vec Qa)
     = Some (3, [4]) \<and>
   map_option (\<lambda>c. (num_residuals c, parameter_block_sizes c)) (RelSE3Factor_Create E X_vec Qb)
     = Some (6, [7, 7]) \<and>
   map_option (\<lambda>c. (num_residuals c, parameter_block_sizes c)) (RangeFactor_Create rij qij)
     = Some (1, [7, 7]) \<and>
   map_option (\<lambda>c. (num_residuals c, parameter_block_sizes c)) (AltFactor_Create hi qi)
     = Some (1, [7]) \<and>
   map_option (\<lambda>c. (num_residuals c, parameter_block_sizes c))
       (TimeSyncAttFactor_Create E q_ref_vec q_vec w_vec Qa)
     = Some (3, [1]) \<and>
   map_option (\<lambda>c. (num_residuals c, parameter_block_sizes c))
       (SO3OffsetFactor_Create E q_ref_vec q_vec Qa)
     = Some (3, [4]) \<and>
   map_option (\<lambda>c. (num_residuals c, parameter_block_sizes c))
       (SE3OffsetFactor_Create E T_ref_vec T_vec Qb)
     = Some (6, [7]) \<and>
   map_option (\<lambda>c. (num_residuals c, parameter_block_sizes c))
       (SE3ReprojectionFactor_Create fx fy cx cy img_coords world_coords)
     = Some (2, [7]) \<and>
   (4 \<le> length q_hat \<longrightarrow>
      SO3Factor_call E f_orient (take 4 q_hat) = SO3Factor_call E f_orient q_hat \<and>
      SO3Factor_call E f_orient (take 4 q_hat) \<noteq> None) \<and>
   (7 \<le> length Xi \<and> 7 \<le> length Xj \<longrightarrow>
      RelSE3Factor_call E f_rel (take 7 Xi) (take 7 Xj) = RelSE3Factor_call E f_rel Xi Xj \<and>
      RelSE3Factor_call E f_rel (take 7 Xi) (take 7 Xj) \<noteq> None) \<and>
   (7 \<le> length Yi \<and> 7 \<le> length Yj \<longrightarrow>
      RangeFactor_call f_range (take 7 Yi) (take 7 Yj) = RangeFactor_call f_range Yi Yj \<and>
      RangeFactor_call f_range (take 7 Yi) (take 7 Yj) \<noteq> None) \<and>
   (7 \<le> length Zi \<longrightarrow>
      AltFactor_call f_alt (take 7 Zi) = AltFactor_call f_alt Zi \<and>
      AltFactor_call f_alt (take 7 Zi) \<noteq> None) \<and>
   (1 \<le> length dt_hat \<longrightarrow>
      TimeSyncAttFactor_call E f_tsync (take 1 dt_hat) = TimeSyncAttFactor_call E f_tsync dt_hat \<and>
      TimeSyncAttFactor_call E f_tsync (take 1 dt_hat) \<noteq> None) \<and>
   (4 \<le> length q_off \<longrightarrow>
      SO3OffsetFactor_call E f_orient_off (take 4 q_off) = SO3OffsetFactor_call E f_orient_off q_off \<and>
      SO3OffsetFactor_call E f_orient_off (take 4 q_off) \<noteq> None) \<and>
   (7 \<le> length T_off \<longrightarrow>
      SE3OffsetFactor_call E f_pose_off (take 7 T_off) = SE3OffsetFactor_call E f_pose_off T_off \<and>
      SE3OffsetFactor_call E f_pose_off (take 7 T_off) \<noteq> None) \<and>
   (7 \<le> length H \<longrightarrow>
      SE3ReprojectionFactor_call E f_reproj (take 7 H) = SE3ReprojectionFactor_call E f_reproj H \<and>
      SE3ReprojectionFactor_call E f_reproj (take 7 H) \<noteq> None)"
proof -
  have dims:
    "map_option (\<lambda>c. (num_residuals c, parameter_block_sizes c)) (SO3Factor_Create E q_vec Qa)
       = Some (3, [4])"
    "map_option (\<lambda>c. (num_residuals c, parameter_block_sizes c)) (RelSE3Factor_Create E X_vec Qb)
       = Some (6, [7, 7])"
    "map_option (\<lambda>c. (num_residuals c, parameter_block_sizes c)) (RangeFactor_Create rij qij)
       = Some (1, [7, 7])"
    "map_option (\<lambda>c. (num_residuals c, parameter_block_sizes c)) (AltFactor_Create hi qi)
       = Some (1, [7])"
    "map_option (\<lambda>c. (num_residuals c, parameter_block_sizes c))
         (TimeSyncAttFactor_Create E q_ref_vec q_vec w_vec Qa)
       = Some (3, [1])"
    "map_option (\<lambda>c. (num_residuals c, parameter_block_sizes c))
         (SO3OffsetFactor_Create E q_ref_vec q_vec Qa)
       = Some (3, [4])"
    "map_option (\<lambda>c. (num_residuals c, parameter_block_sizes c))
         (SE3OffsetFactor_Create E T_ref_vec T_vec Qb)
       = Some (6, [7])"
    "map_option (\<lambda>c. (num_residuals c, parameter_block_sizes c))
         (SE3ReprojectionFactor_Create fx fy cx cy img_coords world_coords)
       = Some (2, [7])"
    by (simp_all add: SO3Factor_Create_def RelSE3Factor_Create_def RangeFactor_Create_def
        AltFactor_Create_def TimeSyncAttFactor_Create_def SO3OffsetFactor_Create_def
        SE3OffsetFactor_Create_def SE3ReprojectionFactor_Create_def
        SO3Factor_new_def RelSE3Factor_new_def RangeFactor_new_def
        AltFactor_new_def TimeSyncAttFactor_new_def SO3OffsetFactor_new_def
        SE3OffsetFactor_new_def SE3ReprojectionFactor_new_def)
  have so3: "SO3Factor_call E f_orient (take 4 q_hat) = SO3Factor_call E f_orient q_hat \<and>
      SO3Factor_call E f_orient (take 4 q_hat) \<noteq> None" if "4 \<le> length q_hat"
    using that by (auto simp add: SO3Factor_call_def Map4_def)
  have rel: "RelSE3Factor_call E f_rel (take 7 Xi) (take 7 Xj) = RelSE3Factor_call E f_rel Xi Xj \<and>
      RelSE3Factor_call E f_rel (take 7 Xi) (take 7 Xj) \<noteq> None"
    if "7 \<le> length Xi \<and> 7 \<le> length Xj"
    using that by (auto simp add: RelSE3Factor_call_def Map7_def)
  have range: "RangeFactor_call f_range (take 7 Yi) (take 7 Yj) = RangeFactor_call f_range Yi Yj \<and>
      RangeFactor_call f_range (take 7 Yi) (take 7 Yj) \<noteq> None"
    if "7 \<le> length Yi \<and> 7 \<le> length Yj"
    using that by (auto simp add: RangeFactor_call_def Map3_def)
  have alt: "AltFactor_call f_alt (take 7 Zi) = AltFactor_call f_alt Zi \<and>
      AltFactor_call f_alt (take 7 Zi) \<noteq> None" if "7 \<le> length Zi"
    using that by (auto simp add: AltFactor_call_def deref_def)
  have tsync: "TimeSyncAttFactor_call E f_tsync (take 1 dt_hat)
        = TimeSyncAttFactor_call E f_tsync dt_hat \<and>
      TimeSyncAttFactor_call E f_tsync (take 1 dt_hat) \<noteq> None" if "1 \<le> length dt_hat"
    using that by (auto simp add: TimeSyncAttFactor_call_def deref_def)
  have so3off: "SO3OffsetFactor_call E f_orient_off (take 4 q_off)
        = SO3OffsetFactor_call E f_orient_off q_off \<and>
      SO3OffsetFactor_call E f_orient_off (take 4 q_off) \<noteq> None" if "4 \<le> length q_off"
    using that by (auto simp add: SO3OffsetFactor_call_def Map4_def)
  have se3off: "SE3OffsetFactor_call E f_pose_off (take 7 T_off)
        = SE3OffsetFactor_call E f_pose_off T_off \<and>
      SE3OffsetFactor_call E f_pose_off (take 7 T_off) \<noteq> None" if "7 \<le> length T_off"
    using that by (auto simp add: SE3OffsetFactor_call_def Map7_def)
  have reproj: "SE3ReprojectionFactor_call E f_reproj (take 7 H)
        = SE3ReprojectionFactor_call E f_reproj H \<and>
      SE3ReprojectionFactor_call E f_reproj (take 7 H) \<noteq> None" if "7 \<le> length H"
    using that by (auto simp add: SE3ReprojectionFactor_call_def Map7_def Let_def)
  show ?thesis
    using dims so3 rel range alt tsync so3off se3off reproj by blast
qed

theorem Create_declares_what_call_reads_witness:
  "map_option (\<lambda>c. (num_residuals c, parameter_block_sizes c))
     (SO3Factor_Create example_externals (1, 0, 0, 0) (diag3 1 2 3)) = Some (3, [4]) \<and>
   map_option (\<lambda>c. (num_residuals c, parameter_block_sizes c))
     (RangeFactor_Create 5 1) = Some (1, [7, 7]) \<and>
   SO3Factor_call example_externals \<lparr>so3_q = (1, 0, 0, 0), so3_Q_inv = diag3 1 2 3\<rparr>
       (take 4 [0, 1, 0, 0, 8, 9])
     = SO3Factor_call example_externals \<lparr>so3_q = (1, 0, 0, 0), so3_Q_inv = diag3 1 2 3\<rparr>
         [0, 1, 0, 0, 8, 9] \<and>
   SO3Factor_call example_externals \<lparr>so3_q = (1, 0, 0, 0), so3_Q_inv = diag3 1 2 3\<rparr>
       (take 4 [0, 1, 0, 0, 8, 9]) = Some (True, (2, 0, 0)) \<and>
   RelSE3Factor_call example_externals
       \<lparr>rel_Xij = (0, 0, 0, 1, 0, 0, 0), rel_Q_inv = diag6 1 1 1 1 1 1\<rparr>
       (take 7 [0, 0, 0, 1, 0, 0, 0, 8]) (take 7 [2, 4, 6, 1, 0, 0, 0, 9])
     = Some (True, (2, 4, 6, 0, 0, 0)) \<and>
   RangeFactor_call \<lparr>range_rij = 6, range_qij_inv = Finite 1\<rparr>
       (take 7 [0, 0, 0, 1, 0, 0, 0, 8]) (take 7 [3, 4, 0, 1, 0, 0, 0, 9])
     = Some (True, Finite 1) \<and>
   AltFactor_call \<lparr>alt_hi = 12, alt_qi_inv = Finite 1\<rparr> (take 7 [1, 2, 10, 1, 0, 0, 0, 8])
     = Some (True, Finite 2) \<and>
   TimeSyncAttFactor_call example_externals
       \<lparr>tsync_q_ref = (1, 0, 0, 0), tsync_q = (1, 0, 0, 0), tsync_w = (2, 4, 6),
        tsync_Q_inv = diag3 1 1 1\<rparr> (take 1 [1, 8])
     = Some (True, (- 2, - 4, - 6)) \<and>
   SO3OffsetFactor_call example_externals
       \<lparr>so3off_q_ref = (1, 0, 0, 0), so3off_q = (1, 0, 0, 0), so3off_Q_inv = diag3 1 1 1\<rparr>
       (take 4 [0, 1, 0, 0, 8])
     = Some (True, (- 2, 0, 0)) \<and>
   SE3OffsetFactor_call example_externals
       \<lparr>se3off_T_ref = (1, 2, 3, 1, 0, 0, 0), se3off_T = (0, 0, 0, 1, 0, 0, 0),
        se3off_Q_inv = diag6 1 1 1 1 1 1\<rparr> (take 7 [1, 1, 1, 1, 0, 0, 0, 8])
     = Some (True, (0, 1, 2, 0, 0, 0)) \<and>
   SE3ReprojectionFactor_call example_externals
       \<lparr>reproj_img_coords = (400, 300), reproj_world_coords = (1, 2, 3),
        reproj_fx = 500, reproj_fy = 500, reproj_cx = 320, reproj_cy = 240\<rparr>
       (take 7 [0, 0, - 2, 1, 0, 0, 0, 8])
     = Some (True, (- 20, - 140))"
  using Create_declares_what_call_reads
    [where E = example_externals and q_vec = "(1, 0, 0, 0)" and Qa = "diag3 1 2 3"
       and rij = 5 and qij = 1
       and f_orient = "\<lparr>so3_q = (1, 0, 0, 0), so3_Q_inv = diag3 1 2 3\<rparr>"
       and q_hat = "[0, 1, 0, 0, 8, 9]"
       and f_rel = "\<lparr>rel_Xij = (0, 0, 0, 1, 0, 0, 0), rel_Q_inv = diag6 1 1 1 1 1 1\<rparr>"
       and Xi = "[0, 0, 0, 1, 0, 0, 0, 8]" and Xj = "[2, 4, 6, 1, 0, 0, 0, 9]"
       and f_range = "\<lparr>range_rij = 6, range_qij_inv = Finite 1\<rparr>"
       and Yi = "[0, 0, 0, 1, 0, 0, 0, 8]" and Yj = "[3, 4, 0, 1, 0, 0, 0, 9]"
       and f_alt = "\<lparr>alt_hi = 12, alt_qi_inv = Finite 1\<rparr>"
       and Zi = "[1, 2, 10, 1, 0, 0, 0, 8]"
       and f_tsync = "\<lparr>tsync_q_ref = (1, 0, 0, 0), tsync_q = (1, 0, 0, 0),
            tsync_w = (2, 4, 6), tsync_Q_inv = diag3 1 1 1\<rparr>"
       and dt_hat = "[1, 8]"
       and f_orient_off = "\<lparr>so3off_q_ref = (1, 0, 0, 0), so3off_q = (1, 0, 0, 0),
            so3off_Q_inv = diag3 1 1 1\<rparr>"
       and q_off = "[0, 1, 0, 0, 8]"
       and f_pose_off = "\<lparr>se3off_T_ref = (1, 2, 3, 1, 0, 0, 0),
            se3off_T = (0, 0, 0, 1, 0, 0, 0), se3off_Q_inv = diag6 1 1 1 1 1 1\<rparr>"
       and T_off = "[1, 1, 1, 1, 0, 0, 0, 8]"
       and f_reproj = "\<lparr>reproj_img_coords = (400, 300), reproj_world_coords = (1, 2, 3),
            reproj_fx = 500, reproj_fy = 500, reproj_cx = 320, reproj_cy = 240\<rparr>"
       and H = "[0, 0, - 2, 1, 0, 0, 0, 8]"]
  by (simp add: ex_defs sqrt_25 SO3Factor_call_def RelSE3Factor_call_def RangeFactor_call_def
      AltFactor_call_def TimeSyncAttFactor_call_def SO3OffsetFactor_call_def
      SE3OffsetFactor_call_def SE3ReprojectionFactor_call_def Let_def)

subsection \<open>The residual is linear in the information matrix\<close>



subsection \<open>Reprojection of a point on the optical axis\<close>



end
